(* ===== verification/Prelude.thy ===== *)
theory Prelude
  imports Main
begin

text \<open>
  Shared vocabulary of the development: the JavaScript operators that
  \<^verbatim>\<open>src/src/components/users/UserDialog.tsx\<close> uses on possibly-undefined
  strings, written out with JavaScript's truthiness rather than HOL's
  defaults, and the lemma collections the component theories feed.
  An optional JavaScript value (\<^verbatim>\<open>undefined\<close> or \<^verbatim>\<open>null\<close> against a value)
  is an \<^typ>\<open>'a option\<close>; optional chaining \<^verbatim>\<open>a?.f\<close> is
  \<^const>\<open>Option.bind\<close> or \<^const>\<open>map_option\<close>.
\<close>

named_theorems js_simps
  "evaluation rules of the JavaScript operators of the model"
named_theorems view_simps
  "how the rendered view reads the component state"
named_theorems step_simps
  "characteristic equations of the dialog's event handlers"

subsection \<open>Truthiness of optional strings\<close>

text \<open>
  In JavaScript \<^verbatim>\<open>undefined\<close> and the empty string are falsy, every other
  string is truthy. \<^verbatim>\<open>!!x\<close> is this test.
\<close>

definition js_truthy :: "string option \<Rightarrow> bool" where
  "js_truthy v = (case v of None \<Rightarrow> False | Some s \<Rightarrow> s \<noteq> [])"

text \<open>
  \<^verbatim>\<open>a || b\<close> returns \<^verbatim>\<open>a\<close> itself when it is truthy and \<^verbatim>\<open>b\<close> otherwise.
\<close>

definition js_or :: "string option \<Rightarrow> string option \<Rightarrow> string option" where
  "js_or a b = (if js_truthy a then a else b)"

text \<open>
  \<^verbatim>\<open>a ?? b\<close> falls back to \<^verbatim>\<open>b\<close> only when \<^verbatim>\<open>a\<close> is \<^verbatim>\<open>null\<close> or
  \<^verbatim>\<open>undefined\<close>; an empty string is kept.
\<close>

definition js_nullish :: "'a option \<Rightarrow> 'a \<Rightarrow> 'a" where
  "js_nullish a b = (case a of None \<Rightarrow> b | Some x \<Rightarrow> x)"

text \<open>
  An uncontrolled input whose \<^verbatim>\<open>defaultValue\<close> is \<^verbatim>\<open>undefined\<close> starts
  empty.
\<close>

definition input_text :: "string option \<Rightarrow> string" where
  "input_text v = (case v of None \<Rightarrow> [] | Some s \<Rightarrow> s)"

subsection \<open>Evaluation rules\<close>

lemma js_truthy_simps [simp, js_simps]:
  "\<not> js_truthy None"
  "js_truthy (Some s) \<longleftrightarrow> s \<noteq> []"
  by (simp_all add: js_truthy_def)

lemma js_or_simps [simp, js_simps]:
  "js_or None b = b"
  "js_or (Some []) b = b"
  "s \<noteq> [] \<Longrightarrow> js_or (Some s) b = Some s"
  by (simp_all add: js_or_def)

lemma js_nullish_simps [simp, js_simps]:
  "js_nullish None b = b"
  "js_nullish (Some x) b = x"
  by (simp_all add: js_nullish_def)

lemma input_text_simps [simp, js_simps]:
  "input_text None = []"
  "input_text (Some s) = s"
  by (simp_all add: input_text_def)

text \<open>
  \<^verbatim>\<open>||\<close> is associative and its result is truthy exactly when one of its
  arguments is; a chain that ends in a defined literal is never
  \<^verbatim>\<open>undefined\<close>.
\<close>

lemma js_or_assoc: "js_or (js_or a b) c = js_or a (js_or b c)"
  by (simp add: js_or_def)

lemma js_truthy_js_or [simp]: "js_truthy (js_or a b) \<longleftrightarrow> js_truthy a \<or> js_truthy b"
  by (simp add: js_or_def)

lemma js_or_Some_defined [simp]: "js_or a (Some s) \<noteq> None"
  by (simp add: js_or_def js_truthy_def split: option.splits)

lemma js_or_falsy [simp]: "\<not> js_truthy a \<Longrightarrow> js_or a b = b"
  by (simp add: js_or_def)

lemma js_or_truthy [simp]: "js_truthy a \<Longrightarrow> js_or a b = a"
  by (simp add: js_or_def)

lemma js_truthy_iff: "js_truthy v \<longleftrightarrow> (\<exists>s. v = Some s \<and> s \<noteq> [])"
  by (simp add: js_truthy_def split: option.splits)

end
