(* ===== verification/Data_Model.thy ===== *)
theory Data_Model
  imports Prelude
begin

text \<open>
  The data the dialog reads and produces. The dialog's props are typed by
  \<^verbatim>\<open>UserType\<close> (\<^verbatim>\<open>./type\<close>), \<^verbatim>\<open>UserFormValues\<close> (\<^verbatim>\<open>../../models\<close>) and
  \<^verbatim>\<open>ActionState\<close> (\<^verbatim>\<open>../../interfaces\<close>), and its initial state comes from
  \<^verbatim>\<open>createInitialState\<close> (\<^verbatim>\<open>../../helpers\<close>). None of these modules is part
  of the sources; they are modelled from the shapes the specification gives
  (section 3) and from how \<^verbatim>\<open>UserDialog.tsx\<close> reads them. The three form
  fields are a datatype, with the wire names the inputs are rendered with.
\<close>

subsection \<open>The form's fields\<close>

datatype field = Username | Password | ConfirmPassword

text \<open>
  The \<^verbatim>\<open>name\<close> attribute of each \<^verbatim>\<open>TextField\<close>: the key under which the
  browser's \<^verbatim>\<open>FormData\<close> carries the field to the submit handler.
\<close>

definition field_name :: "field \<Rightarrow> string" where
  "field_name f = (case f of
      Username \<Rightarrow> ''username''
    | Password \<Rightarrow> ''password''
    | ConfirmPassword \<Rightarrow> ''confirmPassword'')"

text \<open>
  The fields form a finite enumeration, so statements about every field are
  decided by evaluation.
\<close>

instantiation field :: enum
begin

definition enum_field :: "field list" where
  "enum_field = [Username, Password, ConfirmPassword]"

definition enum_all_field :: "(field \<Rightarrow> bool) \<Rightarrow> bool" where
  "enum_all_field P \<longleftrightarrow> P Username \<and> P Password \<and> P ConfirmPassword"

definition enum_ex_field :: "(field \<Rightarrow> bool) \<Rightarrow> bool" where
  "enum_ex_field P \<longleftrightarrow> P Username \<or> P Password \<or> P ConfirmPassword"

instance
proof
  show "(UNIV :: field set) = set enum_class.enum"
    by (auto simp: enum_field_def intro: field.exhaust)
  show "distinct (enum_class.enum :: field list)"
    by (simp add: enum_field_def)
  show "enum_class.enum_all P = Ball (UNIV :: field set) P" for P
    by (auto simp: enum_all_field_def intro: field.induct)
  show "enum_class.enum_ex P = Bex (UNIV :: field set) P" for P
    by (simp add: enum_ex_field_def) (metis field.exhaust)
qed

end

subsection \<open>Records of the external modules\<close>

text \<open>
  \<^verbatim>\<open>UserType\<close>: \<^verbatim>\<open>{ id?, username, password }\<close>; the identifier is absent for
  a user that has not been stored yet.
\<close>

record user_type =
  user_id :: "string option"
  user_username :: string
  user_password :: string

text \<open>\<^verbatim>\<open>UserFormValues\<close>: the three submitted strings.\<close>

record form_values =
  username :: string
  password :: string
  confirmPassword :: string

definition form_value :: "form_values \<Rightarrow> field \<Rightarrow> string" where
  "form_value v f = (case f of
      Username \<Rightarrow> username v
    | Password \<Rightarrow> password v
    | ConfirmPassword \<Rightarrow> confirmPassword v)"

text \<open>
  The values a form with the given input contents submits, one per field
  name.
\<close>

definition values_of :: "(field \<Rightarrow> string) \<Rightarrow> form_values" where
  "values_of c = \<lparr>username = c Username, password = c Password,
                  confirmPassword = c ConfirmPassword\<rparr>"

text \<open>
  \<^verbatim>\<open>ActionState<T> = { formData?: T, errors?: Partial<Record<keyof T, string>> }\<close>:
  both members optional, the error record a partial map from field to message.
\<close>

record action_state =
  formData :: "form_values option"
  errors :: "(field \<rightharpoonup> string) option"

text \<open>
  \<^verbatim>\<open>createInitialState<UserFormValues>()\<close>: a state with neither submitted
  values nor errors.
\<close>

definition createInitialState :: action_state where
  "createInitialState = \<lparr>formData = None, errors = None\<rparr>"

subsection \<open>Reading the action state through optional chaining\<close>

text \<open>
  \<^verbatim>\<open>state?.formData?.<f>\<close> and \<^verbatim>\<open>state?.errors?.<f>\<close>: the state itself may
  be \<^verbatim>\<open>undefined\<close>, since the submit handler may resolve to nothing.
\<close>

definition prior_value :: "action_state option \<Rightarrow> field \<Rightarrow> string option" where
  "prior_value st f = Option.bind st (\<lambda>s. map_option (\<lambda>v. form_value v f) (formData s))"

definition error_of :: "action_state option \<Rightarrow> field \<Rightarrow> string option" where
  "error_of st f = Option.bind st (\<lambda>s. Option.bind (errors s) (\<lambda>m. m f))"

subsection \<open>Lemmas\<close>

lemma field_name_inj: "field_name f = field_name g \<longleftrightarrow> f = g"
  by (cases f; cases g) (simp_all add: field_name_def)

text \<open>A statement about every field is one about each of the three.\<close>

lemma field_forall: "(\<forall>f. P f) \<longleftrightarrow> P Username \<and> P Password \<and> P ConfirmPassword"
  by (metis field.exhaust)

lemma field_fun_eq:
  "c = c' \<longleftrightarrow> c Username = c' Username \<and> c Password = c' Password \<and> c ConfirmPassword = c' ConfirmPassword"
  by (auto simp: fun_eq_iff field_forall)

lemma form_value_values_of [simp]: "form_value (values_of c) f = c f"
  by (cases f) (simp_all add: form_value_def values_of_def)

lemma prior_value_simps [simp, view_simps]:
  "prior_value None f = None"
  "prior_value (Some s) f = map_option (\<lambda>v. form_value v f) (formData s)"
  by (simp_all add: prior_value_def)

lemma error_of_simps [simp, view_simps]:
  "error_of None f = None"
  "error_of (Some s) f = Option.bind (errors s) (\<lambda>m. m f)"
  by (simp_all add: error_of_def)

end
