(* ===== verification/Render.thy ===== *)
theory Render
  imports Data_Model
begin

text \<open>
  The JSX that \<^verbatim>\<open>UserDialog\<close> returns (\<^verbatim>\<open>UserDialog.tsx\<close>, lines 44--133),
  as a pure function from the props and the hook values of one render to a
  description of what is on the screen: the dialog's title, the key of the
  form region, each text field's attributes and each button's. The toolkit's
  widgets (MUI \<^verbatim>\<open>Dialog\<close>, \<^verbatim>\<open>TextField\<close>, \<^verbatim>\<open>Button\<close>, \<^verbatim>\<open>IconButton\<close>) are not
  modelled beyond the props the component passes them.
\<close>

subsection \<open>Inputs of a render\<close>

text \<open>
  The props the parent passes (\<^verbatim>\<open>Props\<close>, lines 22--30). The two callbacks
  \<^verbatim>\<open>onClose\<close> and \<^verbatim>\<open>handleCreateEdit\<close> are not data: the dialog's step
  function (theory \<open>Dialog\<close>) emits their calls as effects.
\<close>

record props =
  p_open :: bool
  p_user :: "user_type option"

text \<open>
  The values the hooks give one render (lines 34--39): the action state and
  pending flag of \<^verbatim>\<open>useActionState\<close>, and the two visibility flags of
  \<^verbatim>\<open>useState\<close>.
\<close>

record hooks =
  state :: "action_state option"
  isPending :: bool
  showPassword :: bool
  showConfirmPassword :: bool

subsection \<open>What a render produces\<close>

datatype input_type = Text_input | Password_input

datatype visibility_icon = Visibility_icon | VisibilityOff_icon

record toggle_view =
  tv_icon :: visibility_icon
  tv_aria_label :: "string option"

text \<open>
  One \<^verbatim>\<open>TextField\<close>. \<open>fv_type\<close> is \<open>None\<close> where the component passes no
  \<^verbatim>\<open>type\<close> (the input is then a plain text input); \<open>fv_default\<close> is the
  \<^verbatim>\<open>defaultValue\<close>, \<open>None\<close> for \<^verbatim>\<open>undefined\<close>.
\<close>

record field_view =
  fv_name :: string
  fv_label :: string
  fv_required :: bool
  fv_autofocus :: bool
  fv_disabled :: bool
  fv_type :: "input_type option"
  fv_default :: "string option"
  fv_error :: bool
  fv_helper :: "string option"
  fv_toggle :: "toggle_view option"

record button_view =
  bv_label :: string
  bv_disabled :: bool
  bv_submit :: bool
  bv_spinner :: bool

record dialog_view =
  dv_open :: bool
  dv_title :: string
  dv_form_key :: string
  dv_username :: field_view
  dv_password :: field_view
  dv_confirm :: field_view
  dv_cancel :: button_view
  dv_submit :: button_view

subsection \<open>The render function\<close>

text \<open>Line 46: \<^verbatim>\<open>{user ? 'Editar usuario' : 'Nuevo usuario'}\<close>.\<close>

definition dialog_title :: "props \<Rightarrow> string" where
  "dialog_title p = (case p_user p of None \<Rightarrow> ''Nuevo usuario'' | Some _ \<Rightarrow> ''Editar usuario'')"

text \<open>Line 47: \<^verbatim>\<open>key={user?.id ?? 'new'}\<close> on the form region.\<close>

definition form_key :: "props \<Rightarrow> string" where
  "form_key p = js_nullish (Option.bind (p_user p) user_id) ''new''"

text \<open>
  Line 58: \<^verbatim>\<open>state?.formData?.username || user?.username || ''\<close>.
\<close>

definition username_default :: "props \<Rightarrow> hooks \<Rightarrow> string option" where
  "username_default p h =
     js_or (js_or (prior_value (state h) Username) (map_option user_username (p_user p))) (Some [])"

text \<open>
  Line 73: \<^verbatim>\<open>state?.formData?.password || user?.password || ""\<close>.
\<close>

definition password_default :: "props \<Rightarrow> hooks \<Rightarrow> string option" where
  "password_default p h =
     js_or (js_or (prior_value (state h) Password) (map_option user_password (p_user p))) (Some [])"

text \<open>Lines 49--62: the username field.\<close>

definition username_view :: "props \<Rightarrow> hooks \<Rightarrow> field_view" where
  "username_view p h =
     \<lparr>fv_name = field_name Username, fv_label = ''Nombre del usuario'',
      fv_required = True, fv_autofocus = True, fv_disabled = isPending h,
      fv_type = None, fv_default = username_default p h,
      fv_error = js_truthy (error_of (state h) Username),
      fv_helper = error_of (state h) Username, fv_toggle = None\<rparr>"

text \<open>
  Lines 64--90: the password field, its type and its adornment's icon chosen
  by \<^verbatim>\<open>showPassword\<close>.
\<close>

definition password_view :: "props \<Rightarrow> hooks \<Rightarrow> field_view" where
  "password_view p h =
     \<lparr>fv_name = field_name Password,
      fv_label = ''Contrase'' @ [CHR 0xC3, CHR 0xB1] @ ''a'',
      fv_required = True, fv_autofocus = False, fv_disabled = isPending h,
      fv_type = Some (if showPassword h then Text_input else Password_input),
      fv_default = password_default p h,
      fv_error = js_truthy (error_of (state h) Password),
      fv_helper = error_of (state h) Password,
      fv_toggle = Some \<lparr>tv_icon = (if showPassword h then VisibilityOff_icon else Visibility_icon),
                        tv_aria_label = Some ''toggle password visibility''\<rparr>\<rparr>"

text \<open>
  Lines 91--114: the confirmation field; its default is the prior attempt's
  value only, never the stored user's.
\<close>

definition confirm_view :: "props \<Rightarrow> hooks \<Rightarrow> field_view" where
  "confirm_view p h =
     \<lparr>fv_name = field_name ConfirmPassword, fv_label = ''Repetir password'',
      fv_required = True, fv_autofocus = False, fv_disabled = isPending h,
      fv_type = Some (if showConfirmPassword h then Text_input else Password_input),
      fv_default = prior_value (state h) ConfirmPassword,
      fv_error = js_truthy (error_of (state h) ConfirmPassword),
      fv_helper = error_of (state h) ConfirmPassword,
      fv_toggle = Some \<lparr>tv_icon = (if showConfirmPassword h then VisibilityOff_icon else Visibility_icon),
                        tv_aria_label = None\<rparr>\<rparr>"

text \<open>Lines 116--129: the Cancel and the Create/Update buttons.\<close>

definition cancel_view :: "hooks \<Rightarrow> button_view" where
  "cancel_view h =
     \<lparr>bv_label = ''Cancelar'', bv_disabled = isPending h, bv_submit = False, bv_spinner = False\<rparr>"

definition submit_view :: "props \<Rightarrow> hooks \<Rightarrow> button_view" where
  "submit_view p h =
     \<lparr>bv_label = (case p_user p of None \<Rightarrow> ''Crear'' | Some _ \<Rightarrow> ''Actualizar''),
      bv_disabled = isPending h, bv_submit = True, bv_spinner = isPending h\<rparr>"

text \<open>Lines 44--133: the whole dialog.\<close>

definition render :: "props \<Rightarrow> hooks \<Rightarrow> dialog_view" where
  "render p h =
     \<lparr>dv_open = p_open p, dv_title = dialog_title p, dv_form_key = form_key p,
      dv_username = username_view p h, dv_password = password_view p h,
      dv_confirm = confirm_view p h,
      dv_cancel = cancel_view h, dv_submit = submit_view p h\<rparr>"

text \<open>The field view of a field, by its name.\<close>

definition field_view_of :: "dialog_view \<Rightarrow> field \<Rightarrow> field_view" where
  "field_view_of v f = (case f of
      Username \<Rightarrow> dv_username v
    | Password \<Rightarrow> dv_password v
    | ConfirmPassword \<Rightarrow> dv_confirm v)"

text \<open>
  The text an input holds when it is (re)mounted: its default value, an
  \<^verbatim>\<open>undefined\<close> default giving the empty string.
\<close>

definition initial_contents :: "props \<Rightarrow> hooks \<Rightarrow> field \<Rightarrow> string" where
  "initial_contents p h f = input_text (fv_default (field_view_of (render p h) f))"

subsection \<open>The specification's precedence of default values\<close>

text \<open>
  Section 4.1 of the specification: a field is pre-filled with the prior
  failed attempt's value if one exists, else with the existing user's stored
  value, else it is empty; the confirmation is never pre-filled from the
  user. \<open>stored_value\<close> is what the user record holds for a field.
\<close>

definition stored_value :: "props \<Rightarrow> field \<Rightarrow> string option" where
  "stored_value p f = (case f of
      Username \<Rightarrow> map_option user_username (p_user p)
    | Password \<Rightarrow> map_option user_password (p_user p)
    | ConfirmPassword \<Rightarrow> None)"

definition spec_default :: "string option \<Rightarrow> string option \<Rightarrow> string" where
  "spec_default prior stored =
     (case prior of Some v \<Rightarrow> v | None \<Rightarrow> (case stored of Some u \<Rightarrow> u | None \<Rightarrow> []))"

subsection \<open>Reading the view\<close>

lemma render_simps [simp, view_simps]:
  "dv_open (render p h) = p_open p"
  "dv_title (render p h) = dialog_title p"
  "dv_form_key (render p h) = form_key p"
  "dv_username (render p h) = username_view p h"
  "dv_password (render p h) = password_view p h"
  "dv_confirm (render p h) = confirm_view p h"
  "dv_cancel (render p h) = cancel_view h"
  "dv_submit (render p h) = submit_view p h"
  by (simp_all add: render_def)

lemma field_view_of_render [simp, view_simps]:
  "field_view_of (render p h) Username = username_view p h"
  "field_view_of (render p h) Password = password_view p h"
  "field_view_of (render p h) ConfirmPassword = confirm_view p h"
  by (simp_all add: field_view_of_def)

text \<open>What every field view says, whatever the field.\<close>

lemma field_view_of_fields [simp, view_simps]:
  "fv_name (field_view_of (render p h) f) = field_name f"
  "fv_disabled (field_view_of (render p h) f) = isPending h"
  "fv_helper (field_view_of (render p h) f) = error_of (state h) f"
  "fv_error (field_view_of (render p h) f) = js_truthy (error_of (state h) f)"
  "fv_required (field_view_of (render p h) f) = True"
  by (simp_all add: field_view_of_def username_view_def password_view_def confirm_view_def
                split: field.split)

lemma button_views [simp, view_simps]:
  "bv_disabled (cancel_view h) = isPending h"
  "bv_disabled (submit_view p h) = isPending h"
  "bv_spinner (submit_view p h) = isPending h"
  "bv_spinner (cancel_view h) = False"
  by (simp_all add: cancel_view_def submit_view_def)

lemma initial_contents_simps [simp, view_simps]:
  "initial_contents p h Username = input_text (username_default p h)"
  "initial_contents p h Password = input_text (password_default p h)"
  "initial_contents p h ConfirmPassword = input_text (prior_value (state h) ConfirmPassword)"
  by (simp_all add: initial_contents_def username_view_def password_view_def confirm_view_def)

lemma input_text_js_or_empty [simp]: "input_text (js_or a (Some [])) = input_text a"
  by (cases a) (simp_all add: js_or_def)

subsection \<open>Properties of the render\<close>

text \<open>
  C5: every input and both buttons are disabled
  exactly while a submission is pending, and the submit button shows its
  progress indicator exactly then.
\<close>

theorem pending_disables_controls:
  "(\<forall>f. fv_disabled (field_view_of (render p h) f) = isPending h)
   \<and> bv_disabled (dv_cancel (render p h)) = isPending h
   \<and> bv_disabled (dv_submit (render p h)) = isPending h
   \<and> bv_spinner (dv_submit (render p h)) = isPending h"
  by simp

text \<open>
  C7: each field is in its error state exactly when the
  action state carries a non-empty message for that field's name, and its
  helper text is that message, whatever the user being edited.
\<close>

theorem field_error_display:
  "(fv_error (field_view_of (render p h) f) \<longleftrightarrow> (\<exists>m. error_of (state h) f = Some m \<and> m \<noteq> []))
   \<and> fv_helper (field_view_of (render p h) f) = error_of (state h) f"
  by (simp add: js_truthy_iff)

text \<open>
  C8: the text each input starts with is the
  specification's precedence (prior attempt, then stored user value, then
  empty), provided the prior attempt did not submit an empty value.
\<close>

theorem default_refines_spec:
  assumes "prior_value (state h) f \<noteq> Some []"
  shows "initial_contents p h f = spec_default (prior_value (state h) f) (stored_value p f)"
proof (cases f)
  case Username
  with assms show ?thesis
    by (cases "prior_value (state h) Username"; cases "p_user p")
       (simp_all add: username_default_def spec_default_def stored_value_def js_or_def)
next
  case Password
  with assms show ?thesis
    by (cases "prior_value (state h) Password"; cases "p_user p")
       (simp_all add: password_default_def spec_default_def stored_value_def js_or_def)
next
  case ConfirmPassword
  then show ?thesis
    by (cases "prior_value (state h) ConfirmPassword")
       (simp_all add: spec_default_def stored_value_def)
qed

text \<open>
  C17: where the prior attempt's username or password
  is the empty string, \<^verbatim>\<open>||\<close> treats it as absent and the input shows the
  stored user's value instead, unlike the specification's precedence.
\<close>

theorem empty_prior_falls_back:
  assumes "prior_value (state h) f = Some []" "f \<noteq> ConfirmPassword"
  shows "initial_contents p h f = input_text (stored_value p f)"
  using assms
  by (cases f) (simp_all add: username_default_def password_default_def stored_value_def)

text \<open>
  C13: with no prior submitted values, the username input
  starts with the edited user's username, and empty when a user is created.
\<close>

theorem no_prior_shows_stored:
  assumes "Option.bind (state h) formData = None"
  shows "fv_default (dv_username (render p h)) =
           Some (case p_user p of None \<Rightarrow> [] | Some u \<Rightarrow> user_username u)"
  using assms
  by (cases "state h"; cases "p_user p") (auto simp: username_view_def username_default_def js_or_def)

text \<open>
  C18: the form region's key is \<^verbatim>\<open>'new'\<close> not only in
  create mode but also for a user without an identifier and for a user whose
  identifier is the string \<^verbatim>\<open>new\<close>; distinct identifiers give distinct keys.
\<close>

theorem form_key_new_collision:
  "(form_key p = ''new'' \<longleftrightarrow> Option.bind (p_user p) user_id \<in> {None, Some ''new''})
   \<and> (Option.bind (p_user p) user_id = Some i \<longrightarrow> form_key p = i)"
  by (cases "Option.bind (p_user p) user_id") (auto simp: form_key_def)

text \<open>
  C14: the confirmation input's default is the
  prior attempt's value or nothing; it never depends on the edited user.
\<close>

theorem confirm_default_ignores_user:
  "fv_default (dv_confirm (render p h)) = prior_value (state h) ConfirmPassword
   \<and> fv_default (dv_confirm (render p h)) = fv_default (dv_confirm (render p' h))"
  by (simp add: confirm_view_def)

end
