(* ===== verification/Action_State.thy ===== *)
theory Action_State
  imports Data_Model
begin

text \<open>
  The \<^verbatim>\<open>useActionState(handleCreateEdit, initialState)\<close> hook of lines 32--37.
  The hook belongs to React, not to the sources; it is modelled from its
  documented behaviour, which the specification restates (section 4.1, state
  machine; section 9): every call of the dispatch function
  (\<^verbatim>\<open>submitAction\<close>) queues the submitted form data; the actions run one at
  a time in dispatch order, each receiving the state the previous one resolved
  to; \<^verbatim>\<open>isPending\<close> holds while an action is queued or running; a rejected
  action is rethrown to the nearest error boundary and cancels the queue.
  The asynchronous handler is an opaque collaborator: its call is an effect
  the model emits, its result an input the environment supplies.
\<close>

subsection \<open>State, effects and errors\<close>

record action_hook =
  ah_state :: "action_state option"
  ah_queue :: "form_values list"

text \<open>
  The calls the component makes to the callbacks its parent passes:
  \<^verbatim>\<open>handleCreateEdit(prevState, formData)\<close> and \<^verbatim>\<open>onClose()\<close>.
\<close>

datatype effect =
    Call_handleCreateEdit "action_state option" form_values
  | Call_onClose

text \<open>How the handler's promise settles.\<close>

datatype outcome = Resolved "action_state option" | Rejected

text \<open>
  The one way a settlement fails: the running action rejected, and React
  rethrows its error to the nearest error boundary.
\<close>

datatype ui_error = Action_rejected

subsection \<open>Operations\<close>

definition use_action_state :: "action_state \<Rightarrow> action_hook" where
  "use_action_state s0 = \<lparr>ah_state = Some s0, ah_queue = []\<rparr>"

definition ah_pending :: "action_hook \<Rightarrow> bool" where
  "ah_pending h \<longleftrightarrow> ah_queue h \<noteq> []"

text \<open>
  Dispatching queues the payload; if nothing was running, the handler starts
  at once with the current state.
\<close>

definition dispatch :: "action_hook \<Rightarrow> form_values \<Rightarrow> action_hook \<times> effect list" where
  "dispatch h v =
     (h\<lparr>ah_queue := ah_queue h @ [v]\<rparr>,
      (case ah_queue h of [] \<Rightarrow> [Call_handleCreateEdit (ah_state h) v] | _ \<Rightarrow> []))"

text \<open>
  Settling the running action: its result becomes the state and the next
  queued action, if any, starts with that state. With no action running
  there is no promise to settle, and the hook is left as it is.
\<close>

definition settle :: "action_hook \<Rightarrow> outcome \<Rightarrow> ui_error + action_hook \<times> effect list" where
  "settle h r =
     (case ah_queue h of
        [] \<Rightarrow> Inr (h, [])
      | _ # vs \<Rightarrow>
          (case r of
             Rejected \<Rightarrow> Inl Action_rejected
           | Resolved s \<Rightarrow>
               Inr (\<lparr>ah_state = s, ah_queue = vs\<rparr>,
                    (case vs of [] \<Rightarrow> [] | w # _ \<Rightarrow> [Call_handleCreateEdit s w]))))"

subsection \<open>Characteristic equations\<close>

lemma use_action_state_simps [simp]:
  "ah_state (use_action_state s0) = Some s0"
  "ah_queue (use_action_state s0) = []"
  "\<not> ah_pending (use_action_state s0)"
  by (simp_all add: use_action_state_def ah_pending_def)

lemma dispatch_idle [simp, step_simps]:
  "ah_queue h = [] \<Longrightarrow>
   dispatch h v = (h\<lparr>ah_queue := [v]\<rparr>, [Call_handleCreateEdit (ah_state h) v])"
  by (simp add: dispatch_def)

lemma dispatch_busy [simp, step_simps]:
  "ah_queue h = u # us \<Longrightarrow> dispatch h v = (h\<lparr>ah_queue := u # us @ [v]\<rparr>, [])"
  by (simp add: dispatch_def)

lemma settle_idle [simp, step_simps]:
  "ah_queue h = [] \<Longrightarrow> settle h r = Inr (h, [])"
  by (simp add: settle_def)

lemma settle_rejected [simp, step_simps]:
  "ah_queue h = u # us \<Longrightarrow> settle h Rejected = Inl Action_rejected"
  by (simp add: settle_def)

lemma settle_resolved [simp, step_simps]:
  "ah_queue h = u # us \<Longrightarrow>
   settle h (Resolved s) =
     Inr (\<lparr>ah_state = s, ah_queue = us\<rparr>,
          (case us of [] \<Rightarrow> [] | w # _ \<Rightarrow> [Call_handleCreateEdit s w]))"
  by (simp add: settle_def)

lemma ah_pending_iff [simp]: "ah_pending h \<longleftrightarrow> ah_queue h \<noteq> []"
  by (simp add: ah_pending_def)

end
