(* ===== verification/Dialog.thy ===== *)
theory Dialog
  imports Render Action_State
begin

text \<open>
  One mounted \<^verbatim>\<open>UserDialog\<close> (\<^verbatim>\<open>UserDialog.tsx\<close>, lines 31--133) as a
  deterministic state machine. Its state is what survives between renders:
  the props last passed, the \<^verbatim>\<open>useActionState\<close> hook (theory
  \<open>Action_State\<close>), the two \<^verbatim>\<open>useState\<close> visibility flags, and the text
  the three uncontrolled inputs hold while the dialog's content is mounted,
  and which of them the user has edited since they were mounted or reset
  (the inputs' dirty flags).
  An event is a user gesture on the rendered view, a settlement of the
  running submit action, or new props from the parent; a step returns the new
  state and the calls made to the parent's callbacks, or the error a
  settlement raises. Gestures on a control the last render disabled, or on a
  closed dialog, do nothing, as in the browser.

  Four behaviours of the runtime the component relies on are part of the
  model: MUI's \<^verbatim>\<open>Dialog\<close> unmounts its content while closed; a change of the
  form region's \<^verbatim>\<open>key\<close> remounts its inputs; a changed
  \<^verbatim>\<open>defaultValue\<close> on a re-render is written into the input, which an
  input the user has not edited then shows; and after a form action settles
  React resets the form, so each uncontrolled input shows its current
  \<^verbatim>\<open>defaultValue\<close> again and counts as unedited. The browser's constraint validation
  blocks a submission while a \<^verbatim>\<open>required\<close> input is empty.
\<close>

subsection \<open>State and events\<close>

record dialog =
  d_props :: props
  d_hook :: action_hook
  d_showPassword :: bool
  d_showConfirmPassword :: bool
  d_inputs :: "(field \<Rightarrow> string) option"
  d_edited :: "field set"

datatype event =
    Type_into field string
  | Toggle_password
  | Toggle_confirm
  | Click_cancel
  | Dismiss
  | Submit
  | Settle outcome
  | Set_props props

subsection \<open>Rendering a state\<close>

definition hooks_of :: "dialog \<Rightarrow> hooks" where
  "hooks_of d =
     \<lparr>state = ah_state (d_hook d), isPending = ah_pending (d_hook d),
      showPassword = d_showPassword d, showConfirmPassword = d_showConfirmPassword d\<rparr>"

definition view :: "dialog \<Rightarrow> dialog_view" where
  "view d = render (d_props d) (hooks_of d)"

text \<open>
  The inputs of a freshly mounted form region show their default values.
\<close>

definition mount_inputs :: "props \<Rightarrow> hooks \<Rightarrow> (field \<Rightarrow> string) option" where
  "mount_inputs p h = (if dv_open (render p h) then Some (initial_contents p h) else None)"

text \<open>
  Lines 31--39: the first render. The action state starts as
  \<^verbatim>\<open>createInitialState()\<close>, both passwords masked.
\<close>

definition init_dialog :: "props \<Rightarrow> dialog" where
  "init_dialog p =
     (let h = use_action_state createInitialState
      in \<lparr>d_props = p, d_hook = h, d_showPassword = False, d_showConfirmPassword = False,
          d_inputs = mount_inputs p
                       \<lparr>state = ah_state h, isPending = False,
                        showPassword = False, showConfirmPassword = False\<rparr>,
          d_edited = {}\<rparr>)"

subsection \<open>Event handlers\<close>

text \<open>Typing into an enabled input of the mounted form.\<close>

definition type_into :: "dialog \<Rightarrow> field \<Rightarrow> string \<Rightarrow> dialog" where
  "type_into d f s =
     (case d_inputs d of
        None \<Rightarrow> d
      | Some c \<Rightarrow>
          (if fv_disabled (field_view_of (view d) f) then d
           else d\<lparr>d_inputs := Some (c(f := s)), d_edited := insert f (d_edited d)\<rparr>))"

text \<open>
  Lines 40--42 and 81: \<^verbatim>\<open>handleTogglePassword\<close>, wired to the password
  field's \<^verbatim>\<open>IconButton\<close>, which is never disabled.
\<close>

definition handleTogglePassword :: "dialog \<Rightarrow> dialog" where
  "handleTogglePassword d =
     (if dv_open (view d) then d\<lparr>d_showPassword := \<not> d_showPassword d\<rparr> else d)"

text \<open>Line 106: the inline toggle of the confirmation field.\<close>

definition toggle_confirm :: "dialog \<Rightarrow> dialog" where
  "toggle_confirm d =
     (if dv_open (view d) then d\<lparr>d_showConfirmPassword := \<not> d_showConfirmPassword d\<rparr> else d)"

text \<open>Line 117: the Cancel button calls \<^verbatim>\<open>onClose\<close> unless it is disabled.\<close>

definition click_cancel :: "dialog \<Rightarrow> effect list" where
  "click_cancel d =
     (if dv_open (view d) \<and> \<not> bv_disabled (dv_cancel (view d)) then [Call_onClose] else [])"

text \<open>
  Line 45: the dialog's own dismissal (Escape, a click on the backdrop)
  calls \<^verbatim>\<open>onClose\<close> whenever the dialog is open.
\<close>

definition dismiss :: "dialog \<Rightarrow> effect list" where
  "dismiss d = (if dv_open (view d) then [Call_onClose] else [])"

text \<open>
  Constraint validation: every input the view marks \<^verbatim>\<open>required\<close> holds
  some text.
\<close>

definition inputs_valid :: "dialog_view \<Rightarrow> (field \<Rightarrow> string) \<Rightarrow> bool" where
  "inputs_valid v c =
     list_all (\<lambda>f. c f \<noteq> []) (filter (\<lambda>f. fv_required (field_view_of v f)) Enum.enum)"

text \<open>
  Lines 47 and 120--128: submitting the form dispatches its data to
  \<^verbatim>\<open>submitAction\<close>, unless the submit button is disabled or a required input
  is empty.
\<close>

definition submit :: "dialog \<Rightarrow> dialog \<times> effect list" where
  "submit d =
     (case d_inputs d of
        None \<Rightarrow> (d, [])
      | Some c \<Rightarrow>
          (if bv_disabled (dv_submit (view d)) then (d, [])
           else if \<not> inputs_valid (view d) c then (d, [])
           else (let (h, es) = dispatch (d_hook d) (values_of c) in (d\<lparr>d_hook := h\<rparr>, es))))"

text \<open>
  The running action settles: the hook takes its result, and the mounted
  form is reset to the defaults the new state renders.
\<close>

definition settle_action :: "dialog \<Rightarrow> outcome \<Rightarrow> ui_error + dialog \<times> effect list" where
  "settle_action d r =
     (if ah_queue (d_hook d) = [] then Inr (d, []) else
      case settle (d_hook d) r of
        Inl e \<Rightarrow> Inl e
      | Inr (h, es) \<Rightarrow>
          (let d' = d\<lparr>d_hook := h\<rparr>
           in Inr (d'\<lparr>d_inputs := map_option (\<lambda>_. initial_contents (d_props d') (hooks_of d')) (d_inputs d),
                       d_edited := {}\<rparr>,
                   es)))"

text \<open>
  New props from the parent. Closing unmounts the content and opening mounts
  it with the current defaults. While open, a change of the form region's
  key (line 47) remounts the inputs; with the same key React writes each
  changed \<^verbatim>\<open>defaultValue\<close> into its input, which an input the user has
  not edited then displays, while edited inputs keep their text. The hooks
  live in \<^verbatim>\<open>UserDialog\<close> itself, above the keyed region, and keep their
  values.
\<close>

definition set_props :: "dialog \<Rightarrow> props \<Rightarrow> dialog" where
  "set_props d p =
     (let defaults = initial_contents p (hooks_of d)
      in if \<not> dv_open (render p (hooks_of d)) then d\<lparr>d_props := p, d_inputs := None, d_edited := {}\<rparr>
         else (case d_inputs d of
                 None \<Rightarrow> d\<lparr>d_props := p, d_inputs := Some defaults, d_edited := {}\<rparr>
               | Some c \<Rightarrow>
                   (if form_key p = form_key (d_props d)
                    then d\<lparr>d_props := p,
                           d_inputs := Some (\<lambda>f. if f \<in> d_edited d then c f else defaults f)\<rparr>
                    else d\<lparr>d_props := p, d_inputs := Some defaults, d_edited := {}\<rparr>)))"

subsection \<open>Steps and runs\<close>

fun dialog_step :: "dialog \<Rightarrow> event \<Rightarrow> ui_error + dialog \<times> effect list" where
  "dialog_step d (Type_into f s) = Inr (type_into d f s, [])"
| "dialog_step d Toggle_password = Inr (handleTogglePassword d, [])"
| "dialog_step d Toggle_confirm = Inr (toggle_confirm d, [])"
| "dialog_step d Click_cancel = Inr (d, click_cancel d)"
| "dialog_step d Dismiss = Inr (d, dismiss d)"
| "dialog_step d Submit = Inr (submit d)"
| "dialog_step d (Settle r) = settle_action d r"
| "dialog_step d (Set_props p) = Inr (set_props d p, [])"

text \<open>A run stops at the first error, collecting the effects of its steps.\<close>

fun run :: "dialog \<Rightarrow> event list \<Rightarrow> ui_error + dialog \<times> effect list" where
  "run d [] = Inr (d, [])"
| "run d (e # es) =
     (case dialog_step d e of
        Inl err \<Rightarrow> Inl err
      | Inr (d', fx) \<Rightarrow>
          (case run d' es of Inl err \<Rightarrow> Inl err | Inr (d'', fx') \<Rightarrow> Inr (d'', fx @ fx')))"

inductive reachable :: "dialog \<Rightarrow> bool" where
  init: "reachable (init_dialog p)"
| step: "reachable d \<Longrightarrow> dialog_step d e = Inr (d', fx) \<Longrightarrow> reachable d'"


subsection \<open>The invariant\<close>

text \<open>
  In every reachable state at most one submission is queued, and the inputs
  are mounted exactly while the dialog is open.
\<close>

definition dialog_inv :: "dialog \<Rightarrow> bool" where
  "dialog_inv d \<longleftrightarrow>
     length (ah_queue (d_hook d)) \<le> 1 \<and> (d_inputs d = None \<longleftrightarrow> \<not> p_open (d_props d))"


subsection \<open>Characteristic lemmas of the handlers\<close>

text \<open>The equations that evaluate a run on concrete events.\<close>

lemmas dialog_eval = init_dialog_def mount_inputs_def Let_def type_into_def submit_def
  settle_action_def set_props_def handleTogglePassword_def toggle_confirm_def
  click_cancel_def dismiss_def view_def

lemma hooks_of_simps [simp, view_simps]:
  "state (hooks_of d) = ah_state (d_hook d)"
  "isPending (hooks_of d) \<longleftrightarrow> ah_queue (d_hook d) \<noteq> []"
  "showPassword (hooks_of d) = d_showPassword d"
  "showConfirmPassword (hooks_of d) = d_showConfirmPassword d"
  by (simp_all add: hooks_of_def)

lemma view_simps [simp, view_simps]:
  "dv_open (view d) = p_open (d_props d)"
  "fv_disabled (field_view_of (view d) f) \<longleftrightarrow> ah_queue (d_hook d) \<noteq> []"
  "bv_disabled (dv_cancel (view d)) \<longleftrightarrow> ah_queue (d_hook d) \<noteq> []"
  "bv_disabled (dv_submit (view d)) \<longleftrightarrow> ah_queue (d_hook d) \<noteq> []"
  by (simp_all add: view_def)

lemma inputs_valid_render [simp]: "inputs_valid (render p h) c \<longleftrightarrow> (\<forall>f. c f \<noteq> [])"
  by (simp add: inputs_valid_def list_all_iff enum_UNIV)

lemma inputs_valid_iff [simp]: "inputs_valid (view d) c \<longleftrightarrow> (\<forall>f. c f \<noteq> [])"
  by (simp add: view_def)

lemma type_into_frame [simp]:
  "d_props (type_into d f s) = d_props d"
  "d_hook (type_into d f s) = d_hook d"
  "d_showPassword (type_into d f s) = d_showPassword d"
  "d_showConfirmPassword (type_into d f s) = d_showConfirmPassword d"
  "d_inputs (type_into d f s) = None \<longleftrightarrow> d_inputs d = None"
  by (auto simp: type_into_def split: option.splits)

lemma toggle_frame [simp]:
  "d_props (handleTogglePassword d) = d_props d"
  "d_hook (handleTogglePassword d) = d_hook d"
  "d_inputs (handleTogglePassword d) = d_inputs d"
  "d_props (toggle_confirm d) = d_props d"
  "d_hook (toggle_confirm d) = d_hook d"
  "d_inputs (toggle_confirm d) = d_inputs d"
  by (simp_all add: handleTogglePassword_def toggle_confirm_def)

lemma set_props_frame [simp]:
  "d_props (set_props d p) = p"
  "d_hook (set_props d p) = d_hook d"
  "d_showPassword (set_props d p) = d_showPassword d"
  "d_showConfirmPassword (set_props d p) = d_showConfirmPassword d"
  "d_inputs (set_props d p) = None \<longleftrightarrow> \<not> p_open p"
  by (auto simp: set_props_def Let_def split: option.splits)

text \<open>Only submitting and settling touch the action hook.\<close>

lemma dialog_step_hook_frame:
  assumes "dialog_step d e = Inr (d', fx)" "e \<noteq> Submit" "\<forall>r. e \<noteq> Settle r"
  shows "d_hook d' = d_hook d"
  using assms by (cases e) auto

text \<open>
  A submission either does nothing, or starts the handler on the inputs'
  values: exactly when the form is mounted, no action is running and every
  input holds text.
\<close>

lemma submit_cases:
  assumes "submit d = (d', fx)"
  obtains "d' = d" "fx = []"
  | c where "d_inputs d = Some c" "ah_queue (d_hook d) = []" "\<forall>f. c f \<noteq> []"
      "d' = d\<lparr>d_hook := (d_hook d)\<lparr>ah_queue := [values_of c]\<rparr>\<rparr>"
      "fx = [Call_handleCreateEdit (ah_state (d_hook d)) (values_of c)]"
  using assms
  by (cases "d_inputs d"; cases "ah_queue (d_hook d)")
     (auto simp: submit_def split: if_splits)

lemma submit_accepted:
  "d_inputs d = Some c \<Longrightarrow> ah_queue (d_hook d) = [] \<Longrightarrow> \<forall>f. c f \<noteq> [] \<Longrightarrow>
   submit d = (d\<lparr>d_hook := (d_hook d)\<lparr>ah_queue := [values_of c]\<rparr>\<rparr>,
               [Call_handleCreateEdit (ah_state (d_hook d)) (values_of c)])"
  by (simp add: submit_def)

text \<open>
  A settlement succeeds only on a running action resolving to a state; the
  hook then holds that state and the rest of the queue, and a mounted form
  shows the defaults of the new state.
\<close>

lemma settle_action_cases:
  assumes "settle_action d r = Inr (d', fx)"
  obtains "ah_queue (d_hook d) = []" "d' = d" "fx = []"
  | v vs s where "ah_queue (d_hook d) = v # vs" "r = Resolved s"
    "d_hook d' = \<lparr>ah_state = s, ah_queue = vs\<rparr>"
    "d_props d' = d_props d" "d_showPassword d' = d_showPassword d"
    "d_showConfirmPassword d' = d_showConfirmPassword d"
    "d_inputs d' = map_option (\<lambda>_. initial_contents (d_props d) (hooks_of d')) (d_inputs d)"
    "fx = (case vs of [] \<Rightarrow> [] | w # _ \<Rightarrow> [Call_handleCreateEdit s w])"
  using assms
  by (cases "ah_queue (d_hook d)"; cases r)
     (auto simp: settle_action_def hooks_of_def)

lemma settle_action_idle_rejected [simp, step_simps]:
  "ah_queue (d_hook d) = [] \<Longrightarrow> settle_action d r = Inr (d, [])"
  "ah_queue (d_hook d) \<noteq> [] \<Longrightarrow> settle_action d Rejected = Inl Action_rejected"
  by (auto simp: settle_action_def neq_Nil_conv)

lemma dialog_inv_init: "dialog_inv (init_dialog p)"
  by (simp add: dialog_inv_def init_dialog_def mount_inputs_def Let_def)

lemma dialog_step_inv:
  assumes "dialog_step d e = Inr (d', fx)" and "dialog_inv d"
  shows "dialog_inv d'"
proof (cases e)
  case Submit
  with assms(1) have "submit d = (d', fx)" by simp
  then show ?thesis
    by (cases rule: submit_cases) (use assms(2) in \<open>auto simp: dialog_inv_def\<close>)
next
  case (Settle r)
  with assms(1) have "settle_action d r = Inr (d', fx)" by simp
  then show ?thesis
    by (cases rule: settle_action_cases) (use assms(2) in \<open>auto simp: dialog_inv_def\<close>)
qed (use assms in \<open>auto simp: dialog_inv_def\<close>)

lemma reachable_inv: "reachable d \<Longrightarrow> dialog_inv d"
  by (induction rule: reachable.induct) (auto intro: dialog_inv_init dialog_step_inv)

lemma reachable_run: "run d es = Inr (d', fx) \<Longrightarrow> reachable d \<Longrightarrow> reachable d'"
proof (induction es arbitrary: d fx)
  case Nil
  then show ?case by simp
next
  case (Cons e es)
  then show ?case
    by (auto split: sum.splits prod.splits intro: reachable.step)
qed

lemma run_append:
  "run d (es @ es') =
     (case run d es of
        Inl err \<Rightarrow> Inl err
      | Inr (d', fx) \<Rightarrow> (case run d' es' of Inl err \<Rightarrow> Inl err | Inr (d'', fx') \<Rightarrow> Inr (d'', fx @ fx')))"
  by (induction es arbitrary: d) (auto split: sum.splits prod.splits)

lemma run_toggles:
  "p_open (d_props d) \<Longrightarrow>
   run d (replicate n Toggle_password) = Inr (d\<lparr>d_showPassword := (d_showPassword d \<noteq> odd n)\<rparr>, [])"
proof (induction n arbitrary: d)
  case 0
  then show ?case by simp
next
  case (Suc n)
  let ?d1 = "d\<lparr>d_showPassword := \<not> d_showPassword d\<rparr>"
  have "dialog_step d Toggle_password = Inr (?d1, [])"
    using Suc.prems by (simp add: handleTogglePassword_def view_def)
  moreover have "run ?d1 (replicate n Toggle_password) =
                   Inr (?d1\<lparr>d_showPassword := (\<not> d_showPassword d \<noteq> odd n)\<rparr>, [])"
    using Suc.IH [of ?d1] Suc.prems by simp
  ultimately show ?case by auto
qed

text \<open>
  A state whose submitted values are the inputs' own text renders, as
  defaults, that text again: every submitted value is non-empty, so
  \<^verbatim>\<open>||\<close> keeps it.
\<close>

lemma initial_contents_echo:
  assumes "state h = Some s" "formData s = Some (values_of c)" "\<forall>f. c f \<noteq> []"
  shows "initial_contents p h = c"
proof
  fix f
  show "initial_contents p h f = c f"
    using assms
    by (cases f) (simp_all add: username_default_def password_default_def)
qed





subsection \<open>Properties of the dialog\<close>

text \<open>
  C1: in every reachable state at most one
  submission is queued in the action hook: the submit button is disabled
  while an action is pending, so the user cannot issue a second submission.
\<close>

theorem at_most_one_submission_in_flight:
  "reachable d \<Longrightarrow> length (ah_queue (d_hook d)) \<le> 1"
  using reachable_inv dialog_inv_def by blast

text \<open>
  C4: submitting an open, idle form whose inputs
  all hold text calls \<^verbatim>\<open>handleCreateEdit\<close> exactly once, with the current
  action state and the inputs' text under their field names, and makes the
  dialog pending without touching the inputs.
\<close>

theorem submit_starts_handler_once:
  assumes "d_inputs d = Some c" "\<not> ah_pending (d_hook d)" "\<forall>f. c f \<noteq> []"
  shows "\<exists>d'. dialog_step d Submit = Inr (d', [Call_handleCreateEdit (ah_state (d_hook d)) (values_of c)])
              \<and> ah_pending (d_hook d') \<and> d_inputs d' = Some c
              \<and> (\<forall>f. form_value (values_of c) f = c f)"
  using assms by (simp add: submit_accepted)

text \<open>
  C6: while an action is pending, submitting, typing
  into any input and clicking Cancel change nothing and call nothing.
\<close>

theorem pending_freezes_form:
  assumes "ah_pending (d_hook d)"
  shows "dialog_step d Submit = Inr (d, [])
         \<and> dialog_step d (Type_into f s) = Inr (d, [])
         \<and> dialog_step d Click_cancel = Inr (d, [])"
  using assms
  by (simp add: submit_def type_into_def click_cancel_def split: option.splits)

text \<open>
  C12: a submission with an empty input is blocked by
  the inputs' \<^verbatim>\<open>required\<close> attribute: nothing changes and the handler is not
  called.
\<close>

theorem required_blocks_submit:
  assumes "d_inputs d = Some c" "c f = []"
  shows "dialog_step d Submit = Inr (d, [])"
  using assms by (auto simp: submit_def)

text \<open>
  C10: clicking Cancel on an open dialog that is not
  pending calls \<^verbatim>\<open>onClose\<close> exactly once, submits nothing and changes no
  state.
\<close>

theorem cancel_calls_onClose_once:
  assumes "p_open (d_props d)" "\<not> ah_pending (d_hook d)"
  shows "dialog_step d Click_cancel = Inr (d, [Call_onClose])"
  using assms by (simp add: click_cancel_def)

text \<open>
  C16: the dialog's own dismissal (Escape or the
  backdrop) calls \<^verbatim>\<open>onClose\<close> even while a submission is pending, although
  the Cancel button is disabled then.
\<close>

theorem dismiss_while_pending_closes:
  assumes "p_open (d_props d)" "ah_pending (d_hook d)"
  shows "dialog_step d Dismiss = Inr (d, [Call_onClose]) \<and> dialog_step d Click_cancel = Inr (d, [])"
  using assms by (simp add: dismiss_def click_cancel_def)

text \<open>
  C11: clicking the password's visibility toggle \<open>n\<close> times on
  an open dialog shows the password as plain text exactly when \<open>n\<close> is odd
  (starting from masked), leaves the inputs' text unchanged and calls
  nothing.
\<close>

theorem toggle_parity:
  assumes "p_open (d_props d)"
  shows "\<exists>d'. run d (replicate n Toggle_password) = Inr (d', [])
              \<and> d_inputs d' = d_inputs d
              \<and> fv_type (dv_password (view d')) =
                   Some (if d_showPassword d \<noteq> odd n then Text_input else Password_input)"
  using assms by (simp add: run_toggles view_def password_view_def)

text \<open>
  C9: in a reachable state, once the running
  submission resolves the dialog is no longer pending, every input and both
  buttons are enabled again, and no further handler call starts.
\<close>

theorem settle_reenables_controls:
  assumes "reachable d" "dialog_step d (Settle r) = Inr (d', fx)"
  shows "\<not> ah_pending (d_hook d') \<and> fx = []
         \<and> (\<forall>f. \<not> fv_disabled (field_view_of (view d') f))
         \<and> \<not> bv_disabled (dv_cancel (view d')) \<and> \<not> bv_disabled (dv_submit (view d'))"
proof -
  have len: "length (ah_queue (d_hook d)) \<le> 1"
    using reachable_inv [OF assms(1)] by (simp add: dialog_inv_def)
  from assms(2) have "settle_action d r = Inr (d', fx)" by simp
  then show ?thesis
    by (cases rule: settle_action_cases) (use len in simp_all)
qed

text \<open>
  C2: when the handler answers a submission
  with a state that echoes the submitted values (and any errors), the form is
  reset to exactly the text the user had typed, and each field shows the
  error the handler reported for it.
\<close>

theorem failed_submit_preserves_input:
  assumes "d_inputs d = Some c" "\<not> ah_pending (d_hook d)" "\<forall>f. c f \<noteq> []"
  shows "\<exists>d'. run d [Submit, Settle (Resolved (Some \<lparr>formData = Some (values_of c), errors = e\<rparr>))] =
                Inr (d', [Call_handleCreateEdit (ah_state (d_hook d)) (values_of c)])
              \<and> d_inputs d' = Some c
              \<and> (\<forall>f. fv_helper (field_view_of (view d') f) = Option.bind e (\<lambda>m. m f))"
proof -
  let ?s = "\<lparr>formData = Some (values_of c), errors = e\<rparr>"
  let ?d1 = "d\<lparr>d_hook := (d_hook d)\<lparr>ah_queue := [values_of c]\<rparr>\<rparr>"
  let ?d2 = "?d1\<lparr>d_hook := \<lparr>ah_state = Some ?s, ah_queue = []\<rparr>\<rparr>"
  have step1: "dialog_step d Submit = Inr (?d1, [Call_handleCreateEdit (ah_state (d_hook d)) (values_of c)])"
    using assms by (simp add: submit_accepted)
  have echo: "initial_contents (d_props d) (hooks_of ?d2) = c"
    by (rule initial_contents_echo [where s = ?s]) (use assms(3) in simp_all)
  have step2: "dialog_step ?d1 (Settle (Resolved (Some ?s))) = Inr (?d2\<lparr>d_inputs := Some c, d_edited := {}\<rparr>, [])"
    using assms(1) echo by (simp add: settle_action_def)
  have "\<forall>f. fv_helper (field_view_of (view (?d2\<lparr>d_inputs := Some c, d_edited := {}\<rparr>)) f) = Option.bind e (\<lambda>m. m f)"
    by (simp add: view_def)
  with step1 step2 show ?thesis by auto
qed

text \<open>
  C19: on an open dialog each visibility toggle flips its own flag and
  nothing else: not the other toggle, not the inputs, not the action state,
  and it calls nothing; the toggles stay usable while a submission is
  pending.
\<close>

theorem toggles_independent:
  assumes "p_open (d_props d)"
  shows "dialog_step d Toggle_password = Inr (d\<lparr>d_showPassword := \<not> d_showPassword d\<rparr>, [])
         \<and> dialog_step d Toggle_confirm =
             Inr (d\<lparr>d_showConfirmPassword := \<not> d_showConfirmPassword d\<rparr>, [])"
  using assms by (simp add: handleTogglePassword_def toggle_confirm_def)

text \<open>
  C20: in a reachable state the component calls its parent's callbacks only
  in answer to the gestures that own them: a step that calls anything is
  either an accepted submission, calling \<^verbatim>\<open>handleCreateEdit\<close> once with the
  current action state and the inputs' values, or Cancel or the dialog's
  dismissal, calling \<^verbatim>\<open>onClose\<close> once. A settlement never starts another
  handler call.
\<close>

theorem callbacks_only_from_gestures:
  assumes "reachable d" "dialog_step d e = Inr (d', fx)" "fx \<noteq> []"
  shows "(e = Submit \<and> (\<exists>c. d_inputs d = Some c
                              \<and> fx = [Call_handleCreateEdit (ah_state (d_hook d)) (values_of c)]))
         \<or> (e \<in> {Click_cancel, Dismiss} \<and> fx = [Call_onClose])"
proof (cases e)
  case Submit
  with assms(2) have "submit d = (d', fx)" by simp
  then show ?thesis
    by (cases rule: submit_cases) (use assms(3) Submit in auto)
next
  case (Settle r)
  have len: "length (ah_queue (d_hook d)) \<le> 1"
    using reachable_inv [OF assms(1)] by (simp add: dialog_inv_def)
  from assms(2) Settle have "settle_action d r = Inr (d', fx)" by simp
  then show ?thesis
    by (cases rule: settle_action_cases) (use len assms(3) in simp_all)
qed (use assms(2,3) in \<open>auto simp: click_cancel_def dismiss_def split: if_splits\<close>)


text \<open>
  C22: the action state is not reset when the form's identity key changes:
  when new open props carry a different key, the remounted inputs show the
  values of the previous submission (whenever non-empty) and each field
  shows the previous submission's error, whatever user the new props carry.
\<close>

theorem action_state_survives_key_change:
  assumes "p_open p" "form_key p \<noteq> form_key (d_props d)"
    "ah_state (d_hook d) = Some s" "formData s = Some v" "form_value v f \<noteq> []"
  shows "\<exists>c. d_inputs (set_props d p) = Some c \<and> c f = form_value v f
             \<and> fv_helper (field_view_of (view (set_props d p)) f) = Option.bind (errors s) (\<lambda>m. m f)"
proof -
  have defaults: "initial_contents p (hooks_of d) f = form_value v f"
    using assms(3-5)
    by (cases f) (simp_all add: username_default_def password_default_def)
  have "\<exists>c. d_inputs (set_props d p) = Some c \<and> c f = form_value v f"
    using assms(1,2) defaults
    by (cases "d_inputs d") (simp_all add: set_props_def Let_def)
  moreover have "fv_helper (field_view_of (view (set_props d p)) f) = Option.bind (errors s) (\<lambda>m. m f)"
    using assms(3) by (simp add: view_def hooks_of_def)
  ultimately show ?thesis by blast
qed

end
