(* ===== verification/Scenarios.thy ===== *)
theory Scenarios
  imports Dialog
begin

text \<open>
  Concrete users, props and dialog states, and the witnesses that apply each
  theorem of the component theories at one of them, its hypotheses
  discharged and its definitions evaluated by the simplifier.
\<close>

subsection \<open>Fixtures\<close>

definition bob :: user_type where
  "bob = \<lparr>user_id = Some ''7'', user_username = ''bob'', user_password = ''old''\<rparr>"

definition carol :: user_type where
  "carol = \<lparr>user_id = Some ''8'', user_username = ''carol'', user_password = ''secret''\<rparr>"

definition p_create :: props where
  "p_create = \<lparr>p_open = True, p_user = None\<rparr>"

definition p_edit :: "user_type \<Rightarrow> props" where
  "p_edit u = \<lparr>p_open = True, p_user = Some u\<rparr>"

definition alice_inputs :: "field \<Rightarrow> string" where
  "alice_inputs f = (case f of Username \<Rightarrow> ''alice'' | Password \<Rightarrow> ''p1'' | ConfirmPassword \<Rightarrow> ''p2'')"

definition typed_alice :: "event list" where
  "typed_alice = [Type_into Username ''alice'', Type_into Password ''p1'', Type_into ConfirmPassword ''p2'']"

definition mismatch_state :: action_state where
  "mismatch_state =
     \<lparr>formData = Some (values_of alice_inputs),
      errors = Some [ConfirmPassword \<mapsto> ''Passwords do not match'']\<rparr>"

text \<open>The create dialog after the user typed the three values.\<close>

definition d_typed :: dialog where
  "d_typed =
     (init_dialog p_create)\<lparr>d_inputs := Some alice_inputs, d_edited := {ConfirmPassword, Password, Username}\<rparr>"

text \<open>The same dialog once the submission is running.\<close>

definition d_pending :: dialog where
  "d_pending = d_typed\<lparr>d_hook := \<lparr>ah_state = Some createInitialState, ah_queue = [values_of alice_inputs]\<rparr>\<rparr>"

lemmas fixture_defs = bob_def carol_def p_create_def p_edit_def alice_inputs_def typed_alice_def
  mismatch_state_def d_typed_def d_pending_def createInitialState_def

lemmas render_eval = username_view_def password_view_def confirm_view_def username_default_def
  password_default_def values_of_def form_value_def field_forall field_fun_eq form_key_def

subsection \<open>The fixtures are reachable\<close>

lemma run_typed_alice: "run (init_dialog p_create) typed_alice = Inr (d_typed, [])"
  by (simp add: dialog_eval fixture_defs render_eval)

lemma step_submit_typed:
  "dialog_step d_typed Submit =
     Inr (d_pending, [Call_handleCreateEdit (Some createInitialState) (values_of alice_inputs)])"
  by (simp add: dialog_eval fixture_defs render_eval)

lemma reachable_d_typed: "reachable d_typed"
  using reachable_run [OF run_typed_alice reachable.init] .

lemma reachable_d_pending: "reachable d_pending"
  using reachable.step [OF reachable_d_typed step_submit_typed] .

subsection \<open>The theorems of the components at concrete states\<close>

theorem at_most_one_submission_in_flight_witness:
  "reachable d_pending \<and> length (ah_queue (d_hook d_pending)) \<le> 1"
  using reachable_d_pending at_most_one_submission_in_flight [OF reachable_d_pending] by simp

theorem submit_starts_handler_once_witness:
  "d_inputs d_typed = Some alice_inputs \<and> \<not> ah_pending (d_hook d_typed) \<and> (\<forall>f. alice_inputs f \<noteq> [])
   \<and> (\<exists>d'. dialog_step d_typed Submit =
            Inr (d', [Call_handleCreateEdit (Some createInitialState) (values_of alice_inputs)])
          \<and> ah_pending (d_hook d'))"
proof -
  have h: "d_inputs d_typed = Some alice_inputs" "\<not> ah_pending (d_hook d_typed)" "\<forall>f. alice_inputs f \<noteq> []"
    by (simp_all add: fixture_defs dialog_eval field_forall)
  show ?thesis
    using h submit_starts_handler_once [OF h] by (auto simp: d_typed_def init_dialog_def createInitialState_def)
qed

theorem pending_freezes_form_witness:
  "ah_pending (d_hook d_pending)
   \<and> dialog_step d_pending Submit = Inr (d_pending, [])
   \<and> dialog_step d_pending (Type_into Username ''x'') = Inr (d_pending, [])
   \<and> dialog_step d_pending Click_cancel = Inr (d_pending, [])"
proof -
  have h: "ah_pending (d_hook d_pending)" by (simp add: d_pending_def)
  show ?thesis using h pending_freezes_form [OF h, of Username "''x''"] by simp
qed

theorem required_blocks_submit_witness:
  "d_inputs (init_dialog p_create) = Some (initial_contents p_create (hooks_of (init_dialog p_create)))
   \<and> initial_contents p_create (hooks_of (init_dialog p_create)) Username = []
   \<and> dialog_step (init_dialog p_create) Submit = Inr (init_dialog p_create, [])"
proof -
  have h: "d_inputs (init_dialog p_create) = Some (initial_contents p_create (hooks_of (init_dialog p_create)))"
    "initial_contents p_create (hooks_of (init_dialog p_create)) Username = []"
    by (simp_all add: dialog_eval fixture_defs render_eval hooks_of_def)
  show ?thesis using h required_blocks_submit [OF h] by simp
qed

theorem cancel_calls_onClose_once_witness:
  "p_open (d_props d_typed) \<and> \<not> ah_pending (d_hook d_typed)
   \<and> dialog_step d_typed Click_cancel = Inr (d_typed, [Call_onClose])"
proof -
  have h: "p_open (d_props d_typed)" "\<not> ah_pending (d_hook d_typed)"
    by (simp_all add: fixture_defs dialog_eval)
  show ?thesis using h cancel_calls_onClose_once [OF h] by simp
qed

theorem dismiss_while_pending_closes_witness:
  "p_open (d_props d_pending) \<and> ah_pending (d_hook d_pending)
   \<and> dialog_step d_pending Dismiss = Inr (d_pending, [Call_onClose])"
proof -
  have h: "p_open (d_props d_pending)" "ah_pending (d_hook d_pending)"
    by (simp_all add: fixture_defs dialog_eval)
  show ?thesis using h dismiss_while_pending_closes [OF h] by simp
qed

theorem toggle_parity_witness:
  "p_open (d_props d_typed)
   \<and> (\<exists>d'. run d_typed (replicate 3 Toggle_password) = Inr (d', [])
          \<and> fv_type (dv_password (view d')) = Some Text_input)"
proof -
  have h: "p_open (d_props d_typed)" by (simp add: fixture_defs dialog_eval)
  have sp: "\<not> d_showPassword d_typed" by (simp add: fixture_defs dialog_eval)
  show ?thesis using h sp toggle_parity [OF h, of 3] by auto
qed

theorem settle_reenables_controls_witness:
  "reachable d_pending
   \<and> (\<exists>d'. dialog_step d_pending (Settle (Resolved (Some mismatch_state))) = Inr (d', [])
          \<and> \<not> ah_pending (d_hook d') \<and> \<not> bv_disabled (dv_submit (view d')))"
proof -
  obtain d' fx where st: "dialog_step d_pending (Settle (Resolved (Some mismatch_state))) = Inr (d', fx)"
    by (simp add: d_pending_def settle_action_def Let_def)
  show ?thesis
    using reachable_d_pending st settle_reenables_controls [OF reachable_d_pending st] by auto
qed

theorem failed_submit_preserves_input_witness:
  "d_inputs d_typed = Some alice_inputs \<and> \<not> ah_pending (d_hook d_typed) \<and> (\<forall>f. alice_inputs f \<noteq> [])
   \<and> (\<exists>d'. run d_typed [Submit, Settle (Resolved (Some mismatch_state))] =
            Inr (d', [Call_handleCreateEdit (Some createInitialState) (values_of alice_inputs)])
          \<and> d_inputs d' = Some alice_inputs
          \<and> fv_helper (dv_confirm (view d')) = Some ''Passwords do not match'')"
proof -
  have h: "d_inputs d_typed = Some alice_inputs" "\<not> ah_pending (d_hook d_typed)" "\<forall>f. alice_inputs f \<noteq> []"
    by (simp_all add: fixture_defs dialog_eval field_forall)
  have s: "mismatch_state = \<lparr>formData = Some (values_of alice_inputs),
                             errors = Some [ConfirmPassword \<mapsto> ''Passwords do not match'']\<rparr>"
    by (simp add: mismatch_state_def)
  obtain d' where
    "run d_typed [Submit, Settle (Resolved (Some mismatch_state))] =
       Inr (d', [Call_handleCreateEdit (ah_state (d_hook d_typed)) (values_of alice_inputs)])"
    "d_inputs d' = Some alice_inputs"
    "\<forall>f. fv_helper (field_view_of (view d') f) = Option.bind (Some [ConfirmPassword \<mapsto> ''Passwords do not match'']) (\<lambda>m. m f)"
    using failed_submit_preserves_input [OF h, of "Some [ConfirmPassword \<mapsto> ''Passwords do not match'']"] s
    by auto
  moreover have "ah_state (d_hook d_typed) = Some createInitialState"
    by (simp add: fixture_defs dialog_eval)
  moreover have "fv_helper (dv_confirm (view d')) = fv_helper (field_view_of (view d') ConfirmPassword)"
    by (simp add: field_view_of_def)
  ultimately show ?thesis using h by auto
qed

theorem default_refines_spec_witness:
  "prior_value (Some mismatch_state) Username \<noteq> Some []
   \<and> initial_contents (p_edit bob)
       \<lparr>state = Some mismatch_state, isPending = False, showPassword = False, showConfirmPassword = False\<rparr>
       Username = ''alice''"
proof -
  let ?h = "\<lparr>state = Some mismatch_state, isPending = False, showPassword = False, showConfirmPassword = False\<rparr>"
  have h: "prior_value (state ?h) Username \<noteq> Some []"
    by (simp add: fixture_defs render_eval)
  have "initial_contents (p_edit bob) ?h Username =
          spec_default (prior_value (state ?h) Username) (stored_value (p_edit bob) Username)"
    using default_refines_spec [OF h] .
  then show ?thesis
    by (simp add: fixture_defs render_eval spec_default_def stored_value_def)
qed

theorem empty_prior_falls_back_witness:
  "initial_contents (p_edit bob)
     \<lparr>state = Some \<lparr>formData = Some \<lparr>username = [], password = ''p1'', confirmPassword = ''p1''\<rparr>, errors = None\<rparr>,
      isPending = False, showPassword = False, showConfirmPassword = False\<rparr> Username = ''bob''"
proof -
  let ?h = "\<lparr>state = Some \<lparr>formData = Some \<lparr>username = [], password = ''p1'', confirmPassword = ''p1''\<rparr>, errors = None\<rparr>,
             isPending = False, showPassword = False, showConfirmPassword = False\<rparr>"
  have h: "prior_value (state ?h) Username = Some []" "Username \<noteq> ConfirmPassword"
    by (simp_all add: form_value_def)
  show ?thesis
    using empty_prior_falls_back [OF h, of "p_edit bob"] by (simp add: stored_value_def p_edit_def bob_def)
qed

theorem no_prior_shows_stored_witness:
  "Option.bind (state (hooks_of (init_dialog (p_edit bob)))) formData = None
   \<and> fv_default (dv_username (render (p_edit bob) (hooks_of (init_dialog (p_edit bob))))) = Some ''bob''"
proof -
  have h: "Option.bind (state (hooks_of (init_dialog (p_edit bob)))) formData = None"
    by (simp add: init_dialog_def createInitialState_def)
  show ?thesis
    using h no_prior_shows_stored [OF h, of "p_edit bob"] by (simp add: p_edit_def bob_def)
qed

theorem form_key_new_collision_witness:
  "form_key (p_edit bob) = ''7'' \<and> form_key p_create = ''new''
   \<and> form_key (p_edit (bob\<lparr>user_id := None\<rparr>)) = ''new''"
proof -
  have a: "Option.bind (p_user (p_edit bob)) user_id = Some ''7''"
    by (simp add: p_edit_def bob_def)
  have "Option.bind (p_user (p_edit bob)) user_id = Some ''7'' \<longrightarrow> form_key (p_edit bob) = ''7''"
    using form_key_new_collision [of "p_edit bob" "''7''"] by blast
  moreover have "form_key p_create = ''new''"
    using form_key_new_collision [of p_create "''new''"] by (simp add: p_create_def)
  moreover have "form_key (p_edit (bob\<lparr>user_id := None\<rparr>)) = ''new''"
    using form_key_new_collision [of "p_edit (bob\<lparr>user_id := None\<rparr>)" "''new''"] by (simp add: p_edit_def)
  ultimately show ?thesis using a by blast
qed

theorem toggles_independent_witness:
  "p_open (d_props d_pending) \<and> ah_pending (d_hook d_pending)
   \<and> dialog_step d_pending Toggle_password =
       Inr (d_pending\<lparr>d_showPassword := True\<rparr>, [])"
proof -
  have h: "p_open (d_props d_pending)" by (simp add: fixture_defs dialog_eval)
  have "\<not> d_showPassword d_pending" "ah_pending (d_hook d_pending)"
    by (simp_all add: fixture_defs dialog_eval)
  then show ?thesis using h toggles_independent [OF h] by simp
qed

theorem callbacks_only_from_gestures_witness:
  "reachable d_typed
   \<and> dialog_step d_typed Submit =
       Inr (d_pending, [Call_handleCreateEdit (Some createInitialState) (values_of alice_inputs)])
   \<and> d_inputs d_typed = Some alice_inputs"
proof -
  have ne: "[Call_handleCreateEdit (Some createInitialState) (values_of alice_inputs)] \<noteq> []" by simp
  have "(Submit = Submit \<and> (\<exists>c. d_inputs d_typed = Some c
            \<and> [Call_handleCreateEdit (Some createInitialState) (values_of alice_inputs)] =
              [Call_handleCreateEdit (ah_state (d_hook d_typed)) (values_of c)]))
        \<or> (Submit \<in> {Click_cancel, Dismiss} \<and>
           [Call_handleCreateEdit (Some createInitialState) (values_of alice_inputs)] = [Call_onClose])"
    using callbacks_only_from_gestures [OF reachable_d_typed step_submit_typed ne] .
  moreover have "d_inputs d_typed = Some alice_inputs" by (simp add: d_typed_def)
  ultimately show ?thesis using reachable_d_typed step_submit_typed by simp
qed


theorem action_state_survives_key_change_witness:
  "p_open (p_edit carol) \<and> form_key (p_edit carol) \<noteq> form_key (d_props d_typed)
   \<and> (\<exists>c. d_inputs (set_props (d_typed\<lparr>d_hook := \<lparr>ah_state = Some mismatch_state, ah_queue = []\<rparr>\<rparr>)
                                (p_edit carol)) = Some c
          \<and> c Username = ''alice'')"
proof -
  let ?d = "d_typed\<lparr>d_hook := \<lparr>ah_state = Some mismatch_state, ah_queue = []\<rparr>\<rparr>"
  have h: "p_open (p_edit carol)" "form_key (p_edit carol) \<noteq> form_key (d_props ?d)"
    "ah_state (d_hook ?d) = Some mismatch_state"
    "formData mismatch_state = Some (values_of alice_inputs)"
    "form_value (values_of alice_inputs) Username \<noteq> []"
    by (simp_all add: fixture_defs render_eval dialog_eval)
  have "form_value (values_of alice_inputs) Username = ''alice''"
    by (simp add: alice_inputs_def)
  moreover have "form_key (d_props ?d) = form_key (d_props d_typed)" by simp
  ultimately show ?thesis
    using h action_state_survives_key_change [OF h] by auto
qed

end
