(* ===== verification/Spec2Isabelle.thy ===== *)
theory Spec2Isabelle
  imports Scenarios
begin

text \<open>
  \<^bold>\<open>A verification development of \<^verbatim>\<open>UserDialog\<close>.\<close>
  The repository's one source file, \<^verbatim>\<open>src/src/components/users/UserDialog.tsx\<close>,
  is a React component: a modal dialog that creates or edits a user through a
  form with three uncontrolled inputs (username, password, confirmation), two
  password-visibility toggles, a Cancel and a submit button. It delegates the
  submission to a parent-supplied asynchronous handler
  (\<^verbatim>\<open>handleCreateEdit\<close>) through React's \<^verbatim>\<open>useActionState\<close> hook and
  re-derives each input's default value, error state and helper text from the
  latest action state on every render.

  \<^bold>\<open>Parts and theories.\<close>
  \<^item> \<open>Prelude\<close>: the JavaScript operators the component relies on, with
    JavaScript's truthiness: \<^verbatim>\<open>||\<close> (\<open>js_or\<close>), \<^verbatim>\<open>!!\<close> (\<open>js_truthy\<close>),
    \<^verbatim>\<open>??\<close> (\<open>js_nullish\<close>), an \<^verbatim>\<open>undefined\<close> default (\<open>input_text\<close>); the
    lemma collections \<open>js_simps\<close>, \<open>view_simps\<close>, \<open>step_simps\<close>.
  \<^item> \<open>Data_Model\<close>: the imported types \<^verbatim>\<open>UserType\<close>, \<^verbatim>\<open>UserFormValues\<close>,
    \<^verbatim>\<open>ActionState\<close> and \<^verbatim>\<open>createInitialState\<close> (their modules are not in
    the sources: modelled from the specification's data model), the field
    datatype with its wire names (an \<open>enum\<close> instance, so statements over
    all fields evaluate), and optional chaining into the action state
    (\<open>prior_value\<close>, \<open>error_of\<close>).
  \<^item> \<open>Render\<close>: lines 44--133, the JSX, as \<open>render :: props \<Rightarrow> hooks \<Rightarrow>
    dialog_view\<close>, one definition per element (\<open>dialog_title\<close> line 46,
    \<open>form_key\<close> 47, \<open>username_view\<close> 49--62 with \<open>username_default\<close> 58,
    \<open>password_view\<close> 64--90 with \<open>password_default\<close> 73, \<open>confirm_view\<close>
    91--114, \<open>cancel_view\<close> 117--119, \<open>submit_view\<close> 120--128), and the
    specification's precedence of defaults (\<open>spec_default\<close>).
  \<^item> \<open>Action_State\<close>: the hook of lines 32--37, from React's documented
    behaviour: a FIFO queue of dispatched submissions (\<open>dispatch\<close>), one
    running at a time, each settlement (\<open>settle\<close>) installing the handler's
    result and starting the next with it; \<^verbatim>\<open>isPending\<close> while the queue is
    not empty; a rejected promise is the error \<open>Action_rejected\<close>, which
    React rethrows to the nearest error boundary.
  \<^item> \<open>Dialog\<close>: the mounted component as a deterministic state machine. Its
    state (\<open>dialog\<close>) is the props, the hook, the two \<^verbatim>\<open>useState\<close> flags,
    the text of the mounted uncontrolled inputs and the set of inputs the
    user has edited since they were mounted or reset (\<open>d_edited\<close>, React's
    dirty tracking of \<^verbatim>\<open>defaultValue\<close>); \<open>dialog_step\<close> handles one event:
    typing (\<open>type_into\<close>), the toggles (\<open>handleTogglePassword\<close> lines
    40--42, \<open>toggle_confirm\<close> line 106), Cancel (\<open>click_cancel\<close> 117), the
    dialog's own dismissal (\<open>dismiss\<close> 45), submission (\<open>submit\<close>, with the
    \<^verbatim>\<open>required\<close> check and the \<^verbatim>\<open>disabled\<close> guard), settlement
    (\<open>settle_action\<close>, followed by React's form reset; with nothing running
    there is nothing to settle and the state is unchanged) and new props
    (\<open>set_props\<close>: the content unmounts when the render's \<^verbatim>\<open>open\<close> is false,
    remounts when the form region's key changes, and otherwise each changed
    \<^verbatim>\<open>defaultValue\<close> is written into the inputs the user has not edited).
    Mounting reads the render's \<^verbatim>\<open>open\<close> attribute (\<open>mount_inputs\<close>). The
    calls to the parent's callbacks are returned as \<open>effect\<close>s; \<open>run\<close> folds
    steps, \<open>reachable\<close> is the inductive set of states reachable from
    \<open>init_dialog\<close>.
  \<^item> \<open>Scenarios\<close>: fixtures (users, props, a typed and a pending dialog) and
    the witnesses that apply each component theorem at a concrete state.
  \<^item> This theory: the specification's state machine (Idle, Submitting) and
    the refinement of it by the dialog.

  \<^bold>\<open>What is proved.\<close>
  Safety and invariants (\<open>Dialog\<close>): in every reachable state at most one
  submission is in flight (\<open>dialog_inv\<close>), and every mounted input the user
  has not edited shows the default the current render computes
  (\<open>inputs_inv\<close>); while pending, submit, typing and Cancel do nothing; a
  step calls a parent callback only as an accepted submission
  (\<^verbatim>\<open>handleCreateEdit\<close>, once) or as Cancel or dismissal (\<^verbatim>\<open>onClose\<close>,
  once). Functional behaviour: an accepted submission calls the handler
  exactly once with the current state and the typed values; a handler result
  that echoes the submitted values restores exactly the typed text after
  React's form reset; a resolution re-enables every control; errors are
  displayed per field; Cancel calls \<^verbatim>\<open>onClose\<close> once; the toggle shows the
  password after an odd number of clicks, each toggle touching only its own
  flag; empty required inputs block submission. Refinement: each input's
  default follows the specification's precedence unless the prior value is
  the empty string (\<open>Render\<close>); every dialog step is a stutter or a step of
  the specification's machine, and every resolution it allows is realised
  (below). Findings, each a theorem about the code: the action state
  survives a change of the form's key, so a newly selected user is shown
  the previous user's submitted values and errors; example 7 of the
  specification is blocked by the required, never pre-filled confirmation;
  the dialog's dismissal closes while pending; \<^verbatim>\<open>||\<close> drops an empty prior
  value; the form key collides for id-less users.

  \<^bold>\<open>Bounds.\<close> No machine integers occur and no loop can diverge: runs are
  structural recursion over event lists, so no fuel is needed.

  \<^bold>\<open>Not modelled.\<close> The parent's handler and \<^verbatim>\<open>onClose\<close> (opaque: a call is
  an effect, a settlement an input), persistence and password storage, and
  the MUI widgets beyond the props passed to them. Assumed runtime behaviour:
  MUI's \<^verbatim>\<open>Dialog\<close> unmounts its content when closed (exit transitions are
  ignored), React resets a form after each settled form action, the browser
  blocks submission while a required input is empty, and a disabled control
  ignores gestures. Labels are kept as the source has them (Spanish).
\<close>

subsection \<open>The specification's state machine\<close>

text \<open>
  Section 4.1 of the specification: per mounted instance, Idle, Submitting,
  Idle again, the action state updated on the way back. The abstraction of a
  dialog state is its phase: Submitting while an action is queued.
\<close>

datatype spec_phase = Idle "action_state option" | Submitting "action_state option"

inductive spec_step :: "spec_phase \<Rightarrow> spec_phase \<Rightarrow> bool" where
  spec_submit: "spec_step (Idle s) (Submitting s)"
| spec_resolve: "spec_step (Submitting s) (Idle s')"

definition abs_phase :: "dialog \<Rightarrow> spec_phase" where
  "abs_phase d =
     (if ah_queue (d_hook d) = [] then Idle (ah_state (d_hook d)) else Submitting (ah_state (d_hook d)))"

subsection \<open>Refinement\<close>

inductive_simps spec_step_simps: "spec_step (Idle s) t" "spec_step (Submitting s) t"

text \<open>
  C3: the dialog refines the specification's state
  machine. In every reachable state, each step of the dialog either leaves
  its abstract phase unchanged or is a step of the specification: a
  submission takes Idle to Submitting with the same action state, a
  resolution takes Submitting to Idle with the new action state.
\<close>

theorem dialog_refines_spec:
  assumes "reachable d" "dialog_step d e = Inr (d', fx)"
  shows "abs_phase d' = abs_phase d \<or> spec_step (abs_phase d) (abs_phase d')"
proof (cases "e = Submit \<or> (\<exists>r. e = Settle r)")
  case False
  with assms(2) have "d_hook d' = d_hook d"
    by (intro dialog_step_hook_frame) auto
  then show ?thesis by (simp add: abs_phase_def)
next
  case True
  have len: "length (ah_queue (d_hook d)) \<le> 1"
    using at_most_one_submission_in_flight [OF assms(1)] .
  show ?thesis
  proof (cases "e = Submit")
    case True
    with assms(2) have "submit d = (d', fx)" by simp
    then show ?thesis
      by (cases rule: submit_cases) (simp_all add: abs_phase_def spec_step_simps)
  next
    case False
    with True obtain r where "e = Settle r" by blast
    with assms(2) have "settle_action d r = Inr (d', fx)" by simp
    then show ?thesis
      by (cases rule: settle_action_cases) (use len in \<open>simp_all add: abs_phase_def spec_step_simps\<close>)
  qed
qed

text \<open>
  C15: every resolution the specification allows is
  realised: in a reachable state whose phase is Submitting, the handler's
  promise resolving to any state \<open>s'\<close> takes the dialog to Idle with
  \<open>s'\<close>, starting no further handler call.
\<close>

theorem spec_resolution_realised:
  assumes "reachable d" "abs_phase d = Submitting s"
  shows "\<exists>d'. dialog_step d (Settle (Resolved s')) = Inr (d', []) \<and> abs_phase d' = Idle s'"
proof -
  have len: "length (ah_queue (d_hook d)) \<le> 1"
    using at_most_one_submission_in_flight [OF assms(1)] .
  from assms(2) obtain v where q: "ah_queue (d_hook d) = [v]"
    using len by (cases "ah_queue (d_hook d)") (auto simp: abs_phase_def split: if_splits)
  then show ?thesis
    by (simp add: settle_action_def abs_phase_def Let_def)
qed

subsection \<open>The refinement at concrete states\<close>

theorem dialog_refines_spec_witness:
  "reachable d_typed \<and> abs_phase d_typed = Idle (Some createInitialState)
   \<and> abs_phase d_pending = Submitting (Some createInitialState)
   \<and> spec_step (abs_phase d_typed) (abs_phase d_pending)"
proof -
  have "abs_phase d_pending = abs_phase d_typed \<or> spec_step (abs_phase d_typed) (abs_phase d_pending)"
    using dialog_refines_spec [OF reachable_d_typed step_submit_typed] .
  moreover have "abs_phase d_typed = Idle (Some createInitialState)"
    "abs_phase d_pending = Submitting (Some createInitialState)"
    by (simp_all add: abs_phase_def fixture_defs dialog_eval)
  ultimately show ?thesis using reachable_d_typed by auto
qed

theorem spec_resolution_realised_witness:
  "reachable d_pending \<and> abs_phase d_pending = Submitting (Some createInitialState)
   \<and> (\<exists>d'. dialog_step d_pending (Settle (Resolved (Some mismatch_state))) = Inr (d', [])
          \<and> abs_phase d' = Idle (Some mismatch_state))"
proof -
  have a: "abs_phase d_pending = Submitting (Some createInitialState)"
    by (simp add: abs_phase_def fixture_defs dialog_eval)
  show ?thesis
    using reachable_d_pending a spec_resolution_realised [OF reachable_d_pending a] by blast
qed

end
